theory Spec2Isabelle
  imports Complex_Main "HOL-Library.Word"
begin

section \<open>Go strings as byte lists\<close>

text \<open>
  A Go \<open>string\<close> is a sequence of bytes, and \<open>len\<close> counts bytes; it is modelled as
  \<^typ>\<open>string\<close>, a list of 8-bit characters. The functions of package \<open>strings\<close> the
  program calls are written out below on bytes.

  An \<open>error\<close> value is what creates it: \<open>errors.New\<close> with its text (also the error
  of a collaborator), or \<open>fmt.Errorf\<close> with its format and the error (\<open>%w\<close>), the
  integer (\<open>%d\<close>) or the string (\<open>%s\<close>) it formats.
\<close>

datatype error =
  New string
| Wrap string error
| ErrorfInt string int
| ErrorfString string string

text \<open>\<open>strings.HasPrefix\<close>.\<close>

definition HasPrefix :: "string \<Rightarrow> string \<Rightarrow> bool" where
  "HasPrefix s p = (take (length p) s = p)"

text \<open>\<open>strings.Index\<close>: the offset of the first occurrence, \<open>None\<close> for Go's \<open>-1\<close>.\<close>

fun Index :: "string \<Rightarrow> string \<Rightarrow> nat option" where
  "Index [] sub = (if sub = [] then Some 0 else None)"
| "Index (c # cs) sub =
     (if HasPrefix (c # cs) sub then Some 0 else map_option Suc (Index cs sub))"

text \<open>\<open>strings.Contains\<close>.\<close>

definition Contains :: "string \<Rightarrow> string \<Rightarrow> bool" where
  "Contains s sub = (Index s sub \<noteq> None)"

text \<open>
  \<open>strings.Split\<close> with a one-byte separator: a string without the separator (the empty
  string too) gives a one-element list.
\<close>

fun Split :: "string \<Rightarrow> char \<Rightarrow> string list" where
  "Split [] sep = [[]]"
| "Split (c # cs) sep =
     (if c = sep then [] # Split cs sep
      else (case Split cs sep of [] \<Rightarrow> [[c]] | w # ws \<Rightarrow> (c # w) # ws))"

text \<open>
  \<open>strings.SplitN(s, sep, 2)\<close> with a one-byte separator: the text before the first
  separator and the text after it, or \<open>None\<close> when the result has one element only.
\<close>

fun SplitN2 :: "string \<Rightarrow> char \<Rightarrow> (string \<times> string) option" where
  "SplitN2 [] sep = None"
| "SplitN2 (c # cs) sep =
     (if c = sep then Some ([], cs)
      else map_option (\<lambda>(a, b). (c # a, b)) (SplitN2 cs sep))"

text \<open>
  The white space of \<open>unicode.IsSpace\<close>, as the UTF-8 encodings of its code points:
  tab, line feed, vertical tab, form feed, carriage return, space, U+0085, U+00A0,
  U+1680, U+2000 to U+200A, U+2028, U+2029, U+202F, U+205F and U+3000. The first byte
  of each encoding is never a continuation byte, so looking for these byte sequences at
  the current offset agrees with decoding the string rune by rune.
\<close>

definition unicodeSpaces :: "string list" where
  "unicodeSpaces =
     [[CHR 0x09], [CHR 0x0A], [CHR 0x0B], [CHR 0x0C], [CHR 0x0D], [CHR 0x20],
      [CHR 0xC2, CHR 0x85], [CHR 0xC2, CHR 0xA0],
      [CHR 0xE1, CHR 0x9A, CHR 0x80],
      [CHR 0xE2, CHR 0x80, CHR 0x80], [CHR 0xE2, CHR 0x80, CHR 0x81],
      [CHR 0xE2, CHR 0x80, CHR 0x82], [CHR 0xE2, CHR 0x80, CHR 0x83],
      [CHR 0xE2, CHR 0x80, CHR 0x84], [CHR 0xE2, CHR 0x80, CHR 0x85],
      [CHR 0xE2, CHR 0x80, CHR 0x86], [CHR 0xE2, CHR 0x80, CHR 0x87],
      [CHR 0xE2, CHR 0x80, CHR 0x88], [CHR 0xE2, CHR 0x80, CHR 0x89],
      [CHR 0xE2, CHR 0x80, CHR 0x8A],
      [CHR 0xE2, CHR 0x80, CHR 0xA8], [CHR 0xE2, CHR 0x80, CHR 0xA9],
      [CHR 0xE2, CHR 0x80, CHR 0xAF], [CHR 0xE2, CHR 0x81, CHR 0x9F],
      [CHR 0xE3, CHR 0x80, CHR 0x80]]"

text \<open>
  The number of bytes of the white-space rune a string starts with, 0 when it starts
  with none.
\<close>

definition spaceWidth :: "string \<Rightarrow> nat" where
  "spaceWidth s =
     (case find (\<lambda>sp. HasPrefix s sp) unicodeSpaces of
        None \<Rightarrow> 0
      | Some sp \<Rightarrow> length sp)"

text \<open>The same, read from the end of the string (the argument is the reversed string).\<close>

definition spaceWidthRev :: "string \<Rightarrow> nat" where
  "spaceWidthRev r =
     (case find (\<lambda>sp. HasPrefix r (rev sp)) unicodeSpaces of
        None \<Rightarrow> 0
      | Some sp \<Rightarrow> length sp)"

function trimLeft :: "string \<Rightarrow> string" where
  "trimLeft s = (if s \<noteq> [] \<and> 0 < spaceWidth s then trimLeft (drop (spaceWidth s) s) else s)"
  by pat_completeness auto
termination
  by (relation "measure length") auto

function trimLeftRev :: "string \<Rightarrow> string" where
  "trimLeftRev r =
     (if r \<noteq> [] \<and> 0 < spaceWidthRev r then trimLeftRev (drop (spaceWidthRev r) r) else r)"
  by pat_completeness auto
termination
  by (relation "measure length") auto

declare trimLeft.simps [simp del] trimLeftRev.simps [simp del]

text \<open>\<open>strings.TrimSpace\<close>: leading and trailing white space removed.\<close>

definition TrimSpace :: "string \<Rightarrow> string" where
  "TrimSpace s = rev (trimLeftRev (rev (trimLeft s)))"

text \<open>
  \<open>strings.Fields\<close>: the maximal runs of bytes between white space. \<open>fieldsFrom w s\<close>
  scans \<open>s\<close> with the field read so far in \<open>w\<close> (reversed).
\<close>

function fieldsFrom :: "string \<Rightarrow> string \<Rightarrow> string list" where
  "fieldsFrom w s =
     (case s of
        [] \<Rightarrow> (if w = [] then [] else [rev w])
      | c # cs \<Rightarrow>
          (if 0 < spaceWidth s
           then (if w = [] then fieldsFrom [] (drop (spaceWidth s) s)
                 else rev w # fieldsFrom [] (drop (spaceWidth s) s))
           else fieldsFrom (c # w) cs))"
  by pat_completeness auto
termination
  by (relation "measure (\<lambda>(w, s). length s)") auto

declare fieldsFrom.simps [simp del]

definition Fields :: "string \<Rightarrow> string list" where
  "Fields s = fieldsFrom [] s"

text \<open>\<open>strings.Join\<close>.\<close>

fun Join :: "string list \<Rightarrow> string \<Rightarrow> string" where
  "Join [] sep = []"
| "Join [w] sep = w"
| "Join (w # ws) sep = w @ sep @ Join ws sep"

text \<open>
  \<open>strings.ReplaceAll\<close> for a non-empty \<open>old\<close> (every call of the program has one):
  the occurrences are replaced from the left, without overlap.
\<close>

function ReplaceAll :: "string \<Rightarrow> string \<Rightarrow> string \<Rightarrow> string" where
  "ReplaceAll s old new =
     (case s of
        [] \<Rightarrow> []
      | c # cs \<Rightarrow>
          (if old \<noteq> [] \<and> HasPrefix s old then new @ ReplaceAll (drop (length old) s) old new
           else c # ReplaceAll cs old new))"
  by pat_completeness auto
termination
  by (relation "measure (\<lambda>(s, old, new). length s)") auto

declare ReplaceAll.simps [simp del]

text \<open>
  \<open>regexp.MustCompile("<[^>]*>").ReplaceAllString(text, "")\<close>: a match starts at the
  leftmost \<open><\<close> that has a \<open>>\<close> after it and ends at the first such \<open>>\<close>; the matches
  are removed from the left, without overlap.
\<close>

function stripTags :: "string \<Rightarrow> string" where
  "stripTags s =
     (case s of
        [] \<Rightarrow> []
      | c # cs \<Rightarrow>
          (if c = CHR ''<'' \<and> CHR ''>'' \<in> set cs
           then stripTags (drop 1 (dropWhile (\<lambda>x. x \<noteq> CHR ''>'') cs))
           else c # stripTags cs))"
  by pat_completeness auto
termination
  by (relation "measure length")
    (auto simp: less_Suc_eq_le intro!: order_trans [OF diff_le_self length_dropWhile_le])

declare stripTags.simps [simp del]

section \<open>The feed entry and the field extractor (rss\_fetcher.go)\<close>

text \<open>
  The parts of \<open>gofeed.Item\<close> the extractor reads; a field whose name several structs
  share is written \<open>Struct_Field\<close>. A \<open>*time.Time\<close> is an optional
  instant; an instant is a number of nanoseconds since the Unix epoch. The media
  extensions are the nested maps of \<open>gofeed\<close>: name space, element name, the elements
  in document order, each with its attribute map.
\<close>

type_synonym gotime = int

record Enclosure =
  Enclosure_URL :: string
  Enclosure_Type :: string

record Extension =
  Attrs :: "string \<rightharpoonup> string"

record Item =
  Item_Title :: string
  Item_Description :: string
  Item_Link :: string
  PublishedParsed :: "gotime option"
  UpdatedParsed :: "gotime option"
  Enclosures :: "Enclosure list"
  Extensions :: "string \<rightharpoonup> (string \<rightharpoonup> Extension list)"

text \<open>
  The standard library functions that are not written out: \<open>time.Now()\<close> (one
  reading of the clock serves a whole call), \<open>strings.ToLower\<close> (the Unicode case
  tables), \<open>t.Format(time.RFC3339)\<close>, \<open>time.Parse(time.RFC3339, s)\<close> (\<open>None\<close> for a
  parse error) and \<open>mime.ExtensionsByType\<close> (\<open>None\<close> for its error). Every theorem
  below holds for all of their behaviours.
\<close>

record golib =
  Now :: gotime
  ToLower :: "string \<Rightarrow> string"
  FormatRFC3339 :: "gotime \<Rightarrow> string"
  ParseRFC3339 :: "string \<Rightarrow> gotime option"
  ExtensionsByType :: "string \<Rightarrow> string list option"

text \<open>A run-time panic of the Go program.\<close>

datatype panic = IndexOutOfRange

text \<open>
  \<open>strings.IndexRune(rest, rune(quote))\<close> for a byte \<open>quote\<close>: a byte below 0x80 is
  looked for as it is, a byte from 0x80 on is the code point of that value, looked for
  as its two-byte UTF-8 encoding.
\<close>

definition IndexRuneOfByte :: "string \<Rightarrow> char \<Rightarrow> nat option" where
  "IndexRuneOfByte s q =
     (let n = of_char q :: nat in
      if n < 128 then Index s [q]
      else Index s [char_of (192 + n div 64), char_of (128 + n mod 64)])"

text \<open>
  \<open>extractImgFromDescription\<close>. \<open>imgTag[srcIdx+4]\<close> is an index expression: it panics
  when \<open>src=\<close> are the last bytes of the tag text. The slice \<open>imgTag[srcIdx+5:]\<close> after
  it is then in range.
\<close>

definition extractImgFromDescription :: "string \<Rightarrow> panic + string" where
  "extractImgFromDescription desc =
     (case Index desc ''<img '' of
        None \<Rightarrow> Inr ''''
      | Some start \<Rightarrow>
          (let imgTag = drop start desc in
           case Index imgTag ''>'' of
             None \<Rightarrow> Inr ''''
           | Some end \<Rightarrow>
               (let imgTag = take end imgTag in
                case Index imgTag ''src='' of
                  None \<Rightarrow> Inr ''''
                | Some srcIdx \<Rightarrow>
                    (if length imgTag \<le> srcIdx + 4 then Inl IndexOutOfRange
                     else
                       (let quote = imgTag ! (srcIdx + 4);
                            rest = drop (srcIdx + 5) imgTag in
                        case IndexRuneOfByte rest quote of
                          None \<Rightarrow> Inr ''''
                        | Some endQuote \<Rightarrow> Inr (take endQuote rest))))))"

text \<open>\<open>getMediaContent\<close> and \<open>getMediaThumbnail\<close>.\<close>

definition getMediaContent :: "Item \<Rightarrow> string" where
  "getMediaContent item =
     (case Extensions item ''media'' of
        None \<Rightarrow> ''''
      | Some ext \<Rightarrow>
          (case ext ''content'' of
             Some (c0 # _) \<Rightarrow> (case Attrs c0 ''url'' of Some url \<Rightarrow> url | None \<Rightarrow> '''')
           | _ \<Rightarrow> ''''))"

definition getMediaThumbnail :: "Item \<Rightarrow> string" where
  "getMediaThumbnail item =
     (case Extensions item ''media'' of
        None \<Rightarrow> ''''
      | Some ext \<Rightarrow>
          (case ext ''thumbnail'' of
             Some (t0 # _) \<Rightarrow> (case Attrs t0 ''url'' of Some url \<Rightarrow> url | None \<Rightarrow> '''')
           | _ \<Rightarrow> ''''))"

text \<open>
  One pass of the loop body of \<open>extractFieldFromItem\<close>, for the trimmed alternative
  \<open>f\<close>: \<open>Inr (Some r)\<close> when the body returns \<open>r\<close>, \<open>Inr None\<close> when it falls through to
  the next alternative, \<open>Inl\<close> when it panics.
\<close>

definition extractCase :: "golib \<Rightarrow> Item \<Rightarrow> string \<Rightarrow> panic + string option" where
  "extractCase L item f =
     (if f = ''title'' then
        Inr (if Item_Title item \<noteq> '''' then Some (Item_Title item) else None)
      else if f = ''media:content'' then
        (let result = getMediaContent item in
         Inr (if result \<noteq> '''' then Some result else None))
      else if f = ''media:thumbnail'' then
        (let result = getMediaThumbnail item in
         Inr (if result \<noteq> '''' then Some result else None))
      else if f = ''enclosure'' then
        Inr (case Enclosures item of
               [] \<Rightarrow> None
             | e0 # _ \<Rightarrow> (if HasPrefix (Enclosure_Type e0) ''image/'' then Some (Enclosure_URL e0) else None))
      else if f = ''description_img'' then
        (case extractImgFromDescription (Item_Description item) of
           Inl p \<Rightarrow> Inl p
         | Inr result \<Rightarrow> Inr (if result \<noteq> '''' then Some result else None))
      else if f = ''link'' then
        Inr (if Item_Link item \<noteq> '''' then Some (Item_Link item) else None)
      else if f = ''pubDate'' then
        Inr (case PublishedParsed item of
               Some t \<Rightarrow> Some (FormatRFC3339 L t)
             | None \<Rightarrow>
                 (case UpdatedParsed item of
                    Some t \<Rightarrow> Some (FormatRFC3339 L t)
                  | None \<Rightarrow> None))
      else Inr None)"

fun extractAlternatives :: "golib \<Rightarrow> Item \<Rightarrow> string list \<Rightarrow> panic + string" where
  "extractAlternatives L item [] = Inr ''''"
| "extractAlternatives L item (f # fs) =
     (case extractCase L item (TrimSpace f) of
        Inl p \<Rightarrow> Inl p
      | Inr (Some r) \<Rightarrow> Inr r
      | Inr None \<Rightarrow> extractAlternatives L item fs)"

definition extractFieldFromItem :: "golib \<Rightarrow> Item \<Rightarrow> string \<Rightarrow> panic + string" where
  "extractFieldFromItem L item field = extractAlternatives L item (Split field (CHR ''|''))"

section \<open>The domain model (models.go)\<close>

text \<open>
  A \<open>uint\<close> identifier is a natural number, a \<open>*string\<close> an optional string, a
  \<open>time.Time\<close> an instant; \<open>zeroTime\<close> is the zero value of \<open>time.Time\<close> (the first
  instant of year 1), for which \<open>IsZero\<close> holds.
\<close>

definition zeroTime :: gotime where
  "zeroTime = - 62135596800000000000"

record Country =
  Country_ID :: nat
  Country_Code :: string
  Country_Name :: string

record Category =
  Category_ID :: nat
  Category_Code :: string
  Category_Name :: string

record NewsSource =
  NewsSource_ID :: nat
  NewsID :: nat
  News :: Category
  SourceName :: string
  RSSURL :: string
  Filter :: "string option"
  TitleField :: "string option"
  ImageField :: "string option"
  LinkField :: "string option"
  CampoFecha :: "string option"
  LangID :: nat
  Lang :: Country
  IsActive :: bool
  UserAdded :: bool
  FallbackImageID :: "nat option"

record NewsItem =
  ID :: nat
  SourceID :: nat
  Source :: NewsSource
  Title :: string
  Link :: string
  Image :: string
  PubDate :: gotime
  LangCode :: string
  CategoryCode :: string
  CreatedAt :: gotime

record FallbackImage =
  FallbackImage_ID :: nat
  FallbackImage_CategoryCode :: string
  LanguageCode :: string
  Filename :: string
  OriginalName :: string
  MimeType :: string
  FileSize :: int
  FallbackImage_CreatedAt :: gotime

text \<open>The zero values of the structs, which a composite literal leaves in the fields it omits.\<close>

definition zeroCountry :: Country where
  "zeroCountry = \<lparr>Country_ID = 0, Country_Code = [], Country_Name = []\<rparr>"

definition zeroCategory :: Category where
  "zeroCategory = \<lparr>Category_ID = 0, Category_Code = [], Category_Name = []\<rparr>"

definition zeroNewsSource :: NewsSource where
  "zeroNewsSource =
     \<lparr>NewsSource_ID = 0, NewsID = 0, News = zeroCategory, SourceName = [], RSSURL = [],
      Filter = None, TitleField = None, ImageField = None, LinkField = None,
      CampoFecha = None, LangID = 0, Lang = zeroCountry, IsActive = False,
      UserAdded = False, FallbackImageID = None\<rparr>"

text \<open>\<open>getString\<close> (fetch\_news.go).\<close>

definition getString :: "string option \<Rightarrow> string" where
  "getString ptr = (case ptr of Some v \<Rightarrow> v | None \<Rightarrow> [])"

section \<open>The feed fetcher (rss\_fetcher.go)\<close>

record Pattern =
  Pattern_TitleField :: string
  Pattern_ImageField :: string
  Pattern_LinkField :: string
  Pattern_DateField :: string

definition mkPattern :: "string \<Rightarrow> string \<Rightarrow> string \<Rightarrow> string \<Rightarrow> Pattern" where
  "mkPattern t i l d =
     \<lparr>Pattern_TitleField = t, Pattern_ImageField = i, Pattern_LinkField = l,
      Pattern_DateField = d\<rparr>"

definition extractionPatterns :: "string \<rightharpoonup> Pattern" where
  "extractionPatterns =
     [''patron1'' \<mapsto> mkPattern ''title'' ''media:content|media:thumbnail'' ''link'' ''pubDate'',
      ''patron2'' \<mapsto> mkPattern ''title'' ''enclosure|media:content'' ''link'' ''pubDate'',
      ''patron3'' \<mapsto> mkPattern ''title'' ''description_img'' ''link'' ''pubDate'',
      ''patron1_no_image'' \<mapsto> mkPattern ''title'' [] ''link'' ''pubDate'',
      ''patron2_no_image'' \<mapsto> mkPattern ''title'' [] ''link'' ''pubDate'',
      ''patron3_no_image'' \<mapsto> mkPattern ''title'' [] ''link'' ''pubDate'']"

text \<open>\<open>extractionPatterns[filter]\<close>: a missing key gives the zero value of the struct.\<close>

definition patternOf :: "string \<Rightarrow> Pattern" where
  "patternOf filt =
     (case extractionPatterns filt of
        Some pattern \<Rightarrow> pattern
      | None \<Rightarrow> mkPattern [] [] [] [])"

text \<open>\<open>strings.TrimPrefix\<close>, \<open>strings.TrimSuffix\<close> and \<open>cleanCDATA\<close>.\<close>

definition TrimPrefix :: "string \<Rightarrow> string \<Rightarrow> string" where
  "TrimPrefix s p = (if HasPrefix s p then drop (length p) s else s)"

definition TrimSuffix :: "string \<Rightarrow> string \<Rightarrow> string" where
  "TrimSuffix s p =
     (if HasPrefix (rev s) (rev p) then take (length s - length p) s else s)"

definition cleanCDATA :: "string \<Rightarrow> string" where
  "cleanCDATA s = TrimSpace (TrimSuffix (TrimPrefix (TrimSpace s) ''<![CDATA['') '']]>'')"

text \<open>
  The date of one entry (the part of \<open>Fetch\<close> under \<open>EXTRACCION DE FECHA\<close>): with an
  explicit \<open>dateField\<close> the first branch, with the date field of the pattern the second.
\<close>

definition resolvePubDate :: "golib \<Rightarrow> Item \<Rightarrow> string \<Rightarrow> string \<Rightarrow> panic + gotime" where
  "resolvePubDate L item filt dateField =
     (if dateField \<noteq> [] then
        (case extractFieldFromItem L item dateField of
           Inl p \<Rightarrow> Inl p
         | Inr dateStr \<Rightarrow>
             (case ParseRFC3339 L dateStr of
                Some t \<Rightarrow> Inr t
              | None \<Rightarrow> Inr (Now L)))
      else
        (case extractFieldFromItem L item (Pattern_DateField (patternOf filt)) of
           Inl p \<Rightarrow> Inl p
         | Inr dateStr \<Rightarrow>
             (case ParseRFC3339 L dateStr of
                Some t \<Rightarrow> Inr t
              | None \<Rightarrow>
                  (case PublishedParsed item of
                     Some t \<Rightarrow> Inr t
                   | None \<Rightarrow>
                       (case UpdatedParsed item of
                          Some t \<Rightarrow> Inr t
                        | None \<Rightarrow> Inr (Now L))))))"

text \<open>
  The title, the image and the link of one entry, each from the explicit field when it
  is given and from the pattern otherwise; a pattern whose name contains \<open>no_image\<close>
  extracts no image.
\<close>

definition resolveTitle :: "golib \<Rightarrow> Item \<Rightarrow> string \<Rightarrow> string \<Rightarrow> panic + string" where
  "resolveTitle L item filt titleField =
     (if titleField \<noteq> [] then extractFieldFromItem L item titleField
      else extractFieldFromItem L item (Pattern_TitleField (patternOf filt)))"

definition resolveImageURL :: "golib \<Rightarrow> Item \<Rightarrow> string \<Rightarrow> string \<Rightarrow> panic + string" where
  "resolveImageURL L item filt imageField =
     (if imageField \<noteq> [] then extractFieldFromItem L item imageField
      else if \<not> Contains filt ''no_image''
        then extractFieldFromItem L item (Pattern_ImageField (patternOf filt))
      else Inr [])"

definition resolveLink :: "golib \<Rightarrow> Item \<Rightarrow> string \<Rightarrow> string \<Rightarrow> panic + string" where
  "resolveLink L item filt linkField =
     (if linkField \<noteq> [] then extractFieldFromItem L item linkField
      else extractFieldFromItem L item (Pattern_LinkField (patternOf filt)))"

text \<open>
  The body of the loop of \<open>Fetch\<close> over the entries: \<open>Inr None\<close> when the entry is dropped
  (\<open>continue\<close>), \<open>Inr (Some n)\<close> when the candidate \<open>n\<close> is appended.
\<close>

definition fetchEntry ::
  "golib \<Rightarrow> string \<Rightarrow> string \<Rightarrow> string \<Rightarrow> string \<Rightarrow> string \<Rightarrow> Item \<Rightarrow> panic + NewsItem option"
where
  "fetchEntry L filt titleField imageField linkField dateField item =
     (case resolveTitle L item filt titleField of
        Inl p \<Rightarrow> Inl p
      | Inr title \<Rightarrow>
          (if title = [] then Inr None
           else
             (case resolveImageURL L item filt imageField of
                Inl p \<Rightarrow> Inl p
              | Inr imageURL \<Rightarrow>
                  (case resolveLink L item filt linkField of
                     Inl p \<Rightarrow> Inl p
                   | Inr linkURL \<Rightarrow>
                       (if linkURL = [] then Inr None
                        else
                          (case resolvePubDate L item filt dateField of
                             Inl p \<Rightarrow> Inl p
                           | Inr pubDate \<Rightarrow>
                               Inr (Some \<lparr>ID = 0, SourceID = 0, Source = zeroNewsSource,
                                          Title = cleanCDATA title, Link = linkURL,
                                          Image = imageURL, PubDate = pubDate,
                                          LangCode = [], CategoryCode = [],
                                          CreatedAt = zeroTime\<rparr>)))))))"

fun fetchEntries ::
  "golib \<Rightarrow> string \<Rightarrow> string \<Rightarrow> string \<Rightarrow> string \<Rightarrow> string \<Rightarrow> Item list \<Rightarrow> panic + NewsItem list"
where
  "fetchEntries L filt titleField imageField linkField dateField [] = Inr []"
| "fetchEntries L filt titleField imageField linkField dateField (item # rest) =
     (case fetchEntry L filt titleField imageField linkField dateField item of
        Inl p \<Rightarrow> Inl p
      | Inr r \<Rightarrow>
          (case fetchEntries L filt titleField imageField linkField dateField rest of
             Inl p \<Rightarrow> Inl p
           | Inr items \<Rightarrow> Inr (case r of None \<Rightarrow> items | Some n \<Rightarrow> n # items)))"

text \<open>
  \<open>Fetch\<close>. \<open>parser\<close> is \<open>f.parser.ParseURLWithContext\<close> under its 30 second time-out: the
  entries of the feed, or the error of the download or of the parse. The result is
  \<open>Inl\<close> for a panic, \<open>Inr (Inl err)\<close> for a returned error and \<open>Inr (Inr items)\<close> for the
  candidates.
\<close>

definition Fetch ::
  "golib \<Rightarrow> (string \<Rightarrow> error + Item list) \<Rightarrow> string \<Rightarrow> string \<Rightarrow> string \<Rightarrow> string \<Rightarrow> string \<Rightarrow> string
     \<Rightarrow> panic + (error + NewsItem list)"
where
  "Fetch L parser url filt titleField imageField linkField dateField =
     (case parser (TrimSpace url) of
        Inl err \<Rightarrow> Inr (Inl (Wrap ''error al obtener feed RSS: %w'' err))
      | Inr feedItems \<Rightarrow>
          (case fetchEntries L filt titleField imageField linkField dateField feedItems of
             Inl p \<Rightarrow> Inl p
           | Inr items \<Rightarrow> Inr (Inr items)))"

section \<open>The configuration (config.go)\<close>

text \<open>
  A value of type \<open>interface{}\<close> in the maps that \<open>viper\<close> fills: an \<open>int\<close>, a
  \<open>float64\<close> (given by its conversion \<open>int(f)\<close>, the only use the program makes of
  it), a nested \<open>map[string]interface{}\<close>, or a value of another type. A Go \<open>int\<close>
  is an integer here; the one product that can overflow is written out with 64-bit
  words where it is computed. A \<open>nil\<close> map is \<open>None\<close>.
\<close>

datatype cfgval =
  VInt int
| VFloat64 int
| VMap "string \<rightharpoonup> cfgval"
| VOther

text \<open>\<open>FiltersConfig\<close>, without the two aspect-ratio fields that go to the image downloader.\<close>

record FiltersConfig =
  MinTitle :: int
  MaxTitle :: int
  Filters_MaxDays :: int
  MaxDaysForNewsWithFewSources :: int

record Config =
  NewsCount :: "(string \<rightharpoonup> cfgval) option"
  MaxPerSource :: "(string \<rightharpoonup> cfgval) option"
  MaxDays :: "(string \<rightharpoonup> cfgval) option"
  Filters :: FiltersConfig

definition getIntValueFromNestedMap ::
  "(string \<rightharpoonup> cfgval) option \<Rightarrow> string \<Rightarrow> string \<Rightarrow> int \<Rightarrow> int"
where
  "getIntValueFromNestedMap nestedMap lang category fallback =
     (case nestedMap of
        None \<Rightarrow> fallback
      | Some m \<Rightarrow>
          (case (case m lang of
                   Some (VMap langMapCast) \<Rightarrow>
                     (case (case langMapCast category of
                              Some (VInt intValue) \<Rightarrow> Some intValue
                            | _ \<Rightarrow> None) of
                        Some intValue \<Rightarrow> Some intValue
                      | None \<Rightarrow>
                          (case langMapCast ''default'' of
                             Some (VInt intValue) \<Rightarrow> Some intValue
                           | _ \<Rightarrow> None))
                 | _ \<Rightarrow> None) of
             Some intValue \<Rightarrow> intValue
           | None \<Rightarrow>
               (case m ''default'' of
                  Some (VInt intValue) \<Rightarrow> intValue
                | _ \<Rightarrow> fallback)))"

definition GetMaxPerSource :: "Config \<Rightarrow> string \<Rightarrow> string \<Rightarrow> int" where
  "GetMaxPerSource c lang category = getIntValueFromNestedMap (MaxPerSource c) lang category 7"

definition GetMaxDays :: "Config \<Rightarrow> string \<Rightarrow> string \<Rightarrow> int" where
  "GetMaxDays c lang category = getIntValueFromNestedMap (MaxDays c) lang category 5"

section \<open>The admission pipeline (fetch\_news.go)\<close>

text \<open>The black list, in UTF-8: the letter o with acute accent is the bytes C3 B3.\<close>

definition blacklist :: "string list" where
  "blacklist =
     [''or'' @ [CHR 0xC3, CHR 0xB3] @ ''scopo'', ''hor'' @ [CHR 0xC3, CHR 0xB3] @ ''scopo'']"

definition cleanText :: "string \<Rightarrow> string" where
  "cleanText text0 =
     (let text1 = stripTags text0;
          text2 = ReplaceAll text1 ''&nbsp;'' '' '';
          text3 = ReplaceAll text2 ''&#160;'' '' '';
          text4 = ReplaceAll text3 ''&amp;'' ''&'';
          text5 = ReplaceAll text4 ''&quot;'' [CHR 0x22];
          text6 = ReplaceAll text5 ''&#39;'' [CHR 0x27];
          text7 = ReplaceAll text6 ''&lt;'' ''<'';
          text8 = ReplaceAll text7 ''&gt;'' ''>'';
          text9 = ReplaceAll text8 ''&apos;'' [CHR 0x27];
          text10 = Join (Fields text9) '' ''
      in TrimSpace text10)"

definition isBlacklisted :: "golib \<Rightarrow> string \<Rightarrow> bool" where
  "isBlacklisted L title = (\<exists>word \<in> set blacklist. Contains (ToLower L title) word)"

text \<open>\<open>getNewsCount\<close>, the method of the use case (it accepts a \<open>float64\<close> too).\<close>

definition asCount :: "cfgval option \<Rightarrow> int option" where
  "asCount n =
     (case n of
        Some (VInt i) \<Rightarrow> Some i
      | Some (VFloat64 f) \<Rightarrow> Some f
      | _ \<Rightarrow> None)"

definition getNewsCount :: "Config \<Rightarrow> string \<Rightarrow> string \<Rightarrow> int" where
  "getNewsCount c lang cat =
     (case NewsCount c of
        None \<Rightarrow> 10
      | Some nc \<Rightarrow>
          (let general = (case asCount (nc ''default'') of Some i \<Rightarrow> i | None \<Rightarrow> 10)
           in case nc lang of
                Some (VMap m) \<Rightarrow>
                  (case asCount (m cat) of
                     Some i \<Rightarrow> i
                   | None \<Rightarrow>
                       (case asCount (m ''default'') of
                          Some i \<Rightarrow> i
                        | None \<Rightarrow> general))
              | _ \<Rightarrow> general))"

text \<open>
  The collaborators of \<open>FetchNewsUseCase\<close>: the methods of its interfaces that the
  pipeline calls, and what the database and the file system answer. The stored news
  items are an explicit list, passed to the calls that read or change it.
  \<^item> \<open>rssFetcher_Fetch\<close>: \<open>uc.rssFetcher.Fetch\<close> (a panic, an error, or the candidates);
  \<^item> \<open>imageDownloader_ValidateImage\<close>: \<open>uc.imageDownloader.ValidateImage\<close>;
  \<^item> \<open>GetByCategoryAndLang\<close>: the fallback image repository (\<open>Inr None\<close> for \<open>nil, nil\<close>);
  \<^item> \<open>ListActive\<close> and \<open>FindByID\<close>: the news source repository;
  \<^item> \<open>gormCreate\<close>: \<open>db.Create(item).Error\<close>, and on success the key given to the row;
  \<^item> \<open>gormDelete\<close>: the error of the bulk delete, if any;
  \<^item> \<open>fallbackMissing\<close>: whether \<open>os.Stat\<close> of the fallback file of an image URL reports
    that the file does not exist;
  \<^item> \<open>rangeOrder\<close>: the order in which \<open>range\<close> visits the groups of the map (Go leaves
    it unspecified); no theorem below restricts it.
\<close>

record Deps =
  rssFetcher_Fetch ::
    "string \<Rightarrow> string \<Rightarrow> string \<Rightarrow> string \<Rightarrow> string \<Rightarrow> string \<Rightarrow> panic + (error + NewsItem list)"
  imageDownloader_ValidateImage :: "string \<Rightarrow> error + bool"
  GetByCategoryAndLang :: "string \<Rightarrow> string \<Rightarrow> error + FallbackImage option"
  ListActive :: "error + NewsSource list"
  FindByID :: "nat \<Rightarrow> error + NewsSource option"
  gormCreate :: "NewsItem list \<Rightarrow> NewsItem \<Rightarrow> error + nat"
  gormDelete :: "NewsItem list \<Rightarrow> error option"
  fallbackMissing :: "string \<Rightarrow> bool"
  rangeOrder :: "(string \<times> NewsSource list) list \<Rightarrow> (string \<times> NewsSource list) list"

text \<open>
  \<open>newsItemRepository.Create\<close>: the row as stored and the new list of rows, or the error.
  The candidates have \<open>ID = 0\<close>, so the database assigns the key.
\<close>

definition Create :: "golib \<Rightarrow> Deps \<Rightarrow> NewsItem list \<Rightarrow> NewsItem \<Rightarrow> error + (NewsItem \<times> NewsItem list)" where
  "Create L D store item =
     (if Title item = [] \<or> Link item = [] \<or> Image item = [] \<or> LangCode item = []
         \<or> CategoryCode item = []
      then Inl (New ''faltan campos requeridos en el item de noticia'')
      else
        (let item1 = (if CreatedAt item = zeroTime then item\<lparr>CreatedAt := Now L\<rparr> else item)
         in case gormCreate D store item1 of
              Inl err \<Rightarrow> Inl err
            | Inr key \<Rightarrow> (let row = item1\<lparr>ID := key\<rparr> in Inr (row, store @ [row]))))"

text \<open>\<open>newsItemRepository.DeleteOlderThan\<close> and \<open>cleanOldNews\<close>.\<close>

definition DeleteOlderThan :: "Deps \<Rightarrow> NewsItem list \<Rightarrow> gotime \<Rightarrow> error + NewsItem list" where
  "DeleteOlderThan D store date =
     (if date = zeroTime then Inl (New ''la fecha no puede ser cero'')
      else
        (case gormDelete D store of
           Some err \<Rightarrow> Inl err
         | None \<Rightarrow> Inr (filter (\<lambda>n. \<not> CreatedAt n < date) store)))"

definition cleanOldNews :: "golib \<Rightarrow> Deps \<Rightarrow> NewsItem list \<Rightarrow> error + NewsItem list" where
  "cleanOldNews L D store =
     (case DeleteOlderThan D store (Now L) of
        Inl err \<Rightarrow> Inl (Wrap ''error limpiando noticias de la BD: %w'' err)
      | Inr store' \<Rightarrow> Inr store')"

text \<open>\<open>getFallbackImage\<close>.\<close>

definition getFallbackImage :: "Deps \<Rightarrow> string \<Rightarrow> string \<Rightarrow> string" where
  "getFallbackImage D categoryCode languageCode =
     (case GetByCategoryAndLang D categoryCode languageCode of
        Inr (Some fallbackImage) \<Rightarrow> ''/images/fallback/'' @ Filename fallbackImage
      | _ \<Rightarrow> [])"

text \<open>
  The age test \<open>antiguedad > time.Duration(maxDays)*24*time.Hour\<close>. \<open>time.Since\<close>
  saturates at the least and the greatest \<open>Duration\<close>; the product is computed in
  \<open>int64\<close> and wraps around.
\<close>

definition Since :: "golib \<Rightarrow> gotime \<Rightarrow> int" where
  "Since L t = max (- (2 ^ 63)) (min (2 ^ 63 - 1) (Now L - t))"

definition ageLimit :: "int \<Rightarrow> int" where
  "ageLimit maxDays = sint ((word_of_int maxDays :: 64 word) * 24 * 3600000000000)"

definition tooOld :: "golib \<Rightarrow> int \<Rightarrow> gotime \<Rightarrow> bool" where
  "tooOld L maxDays fecha = (Since L fecha > ageLimit maxDays)"

text \<open>
  The reason a candidate is discarded for (one per \<open>NewsWarn\<close> or \<open>NewsError\<close> call of
  the loop body), and what the loop body does with a candidate.
\<close>

datatype reason =
  Blacklisted
| BadLength
| DupLink
| DupTitle
| TooOld
| NoFallback
| NoImage
| ImageError error
| ImageInvalid
| FallbackFileMissing

datatype outcome =
  Discarded reason
| StoreFailed error
| Admitted NewsItem

text \<open>
  The block \<open>if imagen == ""\<close>: the image to validate, or the reason to discard.
\<close>

definition resolveImage :: "Deps \<Rightarrow> string \<Rightarrow> string \<Rightarrow> NewsSource \<Rightarrow> string \<Rightarrow> reason + string" where
  "resolveImage D cat lang src imagen =
     (if imagen = [] then
        (if Contains (getString (Filter src)) ''no_image'' then
           (let fallbackImage = getFallbackImage D cat lang in
            if fallbackImage \<noteq> [] then Inr fallbackImage else Inl NoFallback)
         else Inl NoImage)
      else Inr imagen)"

text \<open>
  The block \<open>if !strings.Contains(imagen, "/images/fallback/")\<close>: \<open>None\<close> when the
  image passes, the reason to discard otherwise.
\<close>

definition qualifyImage :: "Deps \<Rightarrow> string \<Rightarrow> reason option" where
  "qualifyImage D imagen =
     (if \<not> Contains imagen ''/images/fallback/'' then
        (case imageDownloader_ValidateImage D imagen of
           Inl err \<Rightarrow> Some (ImageError err)
         | Inr valid \<Rightarrow> (if \<not> valid then Some ImageInvalid else None))
      else (if fallbackMissing D imagen then Some FallbackFileMissing else None))"

text \<open>
  The state of the loops of \<open>Execute\<close> for one group: the local variables \<open>noticias\<close>,
  \<open>linksVistos\<close>, \<open>titulosVistos\<close>, \<open>descartadas\<close> and \<open>sourceCounts\<close> (a missing key
  reads as 0), and the stored rows.
\<close>

record gstate =
  noticias :: "NewsItem list"
  linksVistos :: "string set"
  titulosVistos :: "string set"
  descartadas :: int
  sourceCounts :: "string \<Rightarrow> int"
  store :: "NewsItem list"

definition discard :: "gstate \<Rightarrow> gstate" where
  "discard s = s\<lparr>descartadas := descartadas s + 1\<rparr>"

text \<open>
  The body of the loop over the candidates of a source, after the two limit tests:
  the outcome for the candidate and the state after it.
\<close>

definition processItem ::
  "golib \<Rightarrow> Deps \<Rightarrow> Config \<Rightarrow> string \<Rightarrow> string \<Rightarrow> int \<Rightarrow> NewsSource \<Rightarrow> gstate \<Rightarrow> NewsItem
     \<Rightarrow> outcome \<times> gstate"
where
  "processItem L D cfg cat lang maxDays src s item =
     (let titulo = Title item;
          imagen = Image item;
          link = Link item;
          fecha = PubDate item;
          tituloLimpio = cleanText titulo
      in
      if isBlacklisted L tituloLimpio then (Discarded Blacklisted, discard s)
      else if int (length tituloLimpio) < MinTitle (Filters cfg)
              \<or> int (length tituloLimpio) > MaxTitle (Filters cfg)
        then (Discarded BadLength, discard s)
      else if link \<in> linksVistos s then (Discarded DupLink, discard s)
      else if tituloLimpio \<in> titulosVistos s then (Discarded DupTitle, discard s)
      else if tooOld L maxDays fecha then (Discarded TooOld, discard s)
      else
        (case resolveImage D cat lang src imagen of
           Inl r \<Rightarrow> (Discarded r, discard s)
         | Inr imagen' \<Rightarrow>
             (case qualifyImage D imagen' of
                Some r \<Rightarrow> (Discarded r, discard s)
              | None \<Rightarrow>
                  (let newsItem =
                         \<lparr>ID = 0, SourceID = NewsSource_ID src, Source = src,
                          Title = tituloLimpio, Link = link, Image = imagen',
                          PubDate = fecha, LangCode = lang, CategoryCode = cat,
                          CreatedAt = zeroTime\<rparr>
                   in case Create L D (store s) newsItem of
                        Inl err \<Rightarrow> (StoreFailed err, s)
                      | Inr (row, store') \<Rightarrow>
                          (Admitted row,
                           s\<lparr>noticias := noticias s @ [row],
                             linksVistos := insert link (linksVistos s),
                             titulosVistos := insert tituloLimpio (titulosVistos s),
                             sourceCounts := (sourceCounts s)
                               (SourceName src := sourceCounts s (SourceName src) + 1),
                             store := store'\<rparr>)))))"

text \<open>The loop over the candidates of one source, with its two \<open>break\<close>s.\<close>

fun itemsLoop ::
  "golib \<Rightarrow> Deps \<Rightarrow> Config \<Rightarrow> string \<Rightarrow> string \<Rightarrow> int \<Rightarrow> int \<Rightarrow> int \<Rightarrow> NewsSource
     \<Rightarrow> NewsItem list \<Rightarrow> gstate \<Rightarrow> gstate"
where
  "itemsLoop L D cfg cat lang tope maxDays maxPerSource src [] s = s"
| "itemsLoop L D cfg cat lang tope maxDays maxPerSource src (item # rest) s =
     (if int (length (noticias s)) \<ge> tope then s
      else if sourceCounts s (SourceName src) \<ge> maxPerSource then s
      else itemsLoop L D cfg cat lang tope maxDays maxPerSource src rest
             (snd (processItem L D cfg cat lang maxDays src s item)))"

text \<open>
  The loop over the sources of a group: a source whose fetch returns an error is
  skipped; the loop stops when the group is full. \<open>None\<close> is a panic of the fetcher.
\<close>

fun sourcesLoop ::
  "golib \<Rightarrow> Deps \<Rightarrow> Config \<Rightarrow> string \<Rightarrow> string \<Rightarrow> int \<Rightarrow> int \<Rightarrow> NewsSource list \<Rightarrow> gstate
     \<Rightarrow> gstate option"
where
  "sourcesLoop L D cfg cat lang tope maxDays [] s = Some s"
| "sourcesLoop L D cfg cat lang tope maxDays (src # rest) s =
     (case rssFetcher_Fetch D (RSSURL src) (getString (Filter src)) (getString (TitleField src))
             (getString (ImageField src)) (getString (LinkField src))
             (getString (CampoFecha src)) of
        Inl p \<Rightarrow> None
      | Inr (Inl err) \<Rightarrow> sourcesLoop L D cfg cat lang tope maxDays rest s
      | Inr (Inr feedItems) \<Rightarrow>
          (let s' = itemsLoop L D cfg cat lang tope maxDays (GetMaxPerSource cfg lang cat) src
                      feedItems s
           in if int (length (noticias s')) \<ge> tope then Some s'
              else sourcesLoop L D cfg cat lang tope maxDays rest s'))"

text \<open>The age limit of a group (lines 123 to 130 of \<open>Execute\<close>).\<close>

definition groupMaxDays :: "Config \<Rightarrow> string \<Rightarrow> string \<Rightarrow> NewsSource list \<Rightarrow> int" where
  "groupMaxDays cfg lang cat groupSources =
     (let maxDays = GetMaxDays cfg lang cat in
      if length groupSources \<le> 3 then
        (let extendedDays = MaxDaysForNewsWithFewSources (Filters cfg) in
         if extendedDays > maxDays then extendedDays else maxDays)
      else maxDays)"

definition initGroup :: "NewsItem list \<Rightarrow> gstate" where
  "initGroup st =
     \<lparr>noticias = [], linksVistos = {}, titulosVistos = {}, descartadas = 0,
      sourceCounts = (\<lambda>_. 0), store = st\<rparr>"

text \<open>One pass of the loop over the groups: the state of the group at its end.\<close>

definition processGroup ::
  "golib \<Rightarrow> Deps \<Rightarrow> Config \<Rightarrow> string \<Rightarrow> NewsSource list \<Rightarrow> NewsItem list \<Rightarrow> gstate option"
where
  "processGroup L D cfg key groupSources st =
     (case SplitN2 key (CHR ''_'') of
        None \<Rightarrow> Some (initGroup st)
      | Some (cat, lang) \<Rightarrow>
          sourcesLoop L D cfg cat lang (getNewsCount cfg lang cat)
            (groupMaxDays cfg lang cat groupSources) groupSources (initGroup st))"

fun groupsLoop ::
  "golib \<Rightarrow> Deps \<Rightarrow> Config \<Rightarrow> (string \<times> NewsSource list) list \<Rightarrow> NewsItem list
     \<Rightarrow> NewsItem list option"
where
  "groupsLoop L D cfg [] st = Some st"
| "groupsLoop L D cfg ((key, groupSources) # rest) st =
     (case processGroup L D cfg key groupSources st of
        None \<Rightarrow> None
      | Some s \<Rightarrow> groupsLoop L D cfg rest (store s))"

text \<open>
  The map \<open>groups\<close>: \<open>groups[key] = append(groups[key], src)\<close> for every source, as an
  association list with one entry per key.
\<close>

fun addToGroup ::
  "string \<Rightarrow> NewsSource \<Rightarrow> (string \<times> NewsSource list) list \<Rightarrow> (string \<times> NewsSource list) list"
where
  "addToGroup key src [] = [(key, [src])]"
| "addToGroup key src ((k, v) # g) =
     (if k = key then (k, v @ [src]) # g else (k, v) # addToGroup key src g)"

fun groupSourcesBy :: "NewsSource list \<Rightarrow> (string \<times> NewsSource list) list \<Rightarrow> (string \<times> NewsSource list) list" where
  "groupSourcesBy [] g = g"
| "groupSourcesBy (src # rest) g =
     groupSourcesBy rest
       (addToGroup (Category_Code (News src) @ ''_'' @ Country_Code (Lang src)) src g)"

text \<open>
  How a call ends: with a panic, or by returning its error (\<open>None\<close> for \<open>nil\<close>) with the
  stored rows as the call leaves them.
\<close>

datatype completion =
  Panicked
| Returned "error option" "NewsItem list"

text \<open>
  \<open>Execute\<close>: how it ends, and the warning logged when the purge at its start fails
  (the rows are then taken to be as before the purge).
\<close>

record ExecuteResult =
  purgeWarning :: "error option"
  completion :: completion

definition Execute :: "golib \<Rightarrow> Deps \<Rightarrow> Config \<Rightarrow> NewsItem list \<Rightarrow> ExecuteResult" where
  "Execute L D cfg st0 =
     (let (warning, st1) =
            (case cleanOldNews L D st0 of
               Inl err \<Rightarrow> (Some err, st0)
             | Inr st \<Rightarrow> (None, st))
      in case ListActive D of
           Inl err \<Rightarrow>
             \<lparr>purgeWarning = warning,
              completion =
                Returned (Some (Wrap ''error al obtener las fuentes de noticias: %w'' err)) st1\<rparr>
         | Inr sources \<Rightarrow>
             (case groupsLoop L D cfg (rangeOrder D (groupSourcesBy sources [])) st1 of
                None \<Rightarrow> \<lparr>purgeWarning = warning, completion = Panicked\<rparr>
              | Some st \<Rightarrow> \<lparr>purgeWarning = warning, completion = Returned None st\<rparr>))"

subsection \<open>The run for one source\<close>






section \<open>The image qualifier\<close>

text \<open>
  The arithmetic of \<open>float64\<close> is a parameter: the conversion from \<open>int\<close>, the four
  operations and the two comparisons the function uses, on a type \<open>'f\<close> of values.
  The theorems hold for every such arithmetic, that of IEEE 754 among them.
\<close>

record 'f float64ops =
  ofInt :: "int \<Rightarrow> 'f"
  fadd :: "'f \<Rightarrow> 'f \<Rightarrow> 'f"
  fsub :: "'f \<Rightarrow> 'f \<Rightarrow> 'f"
  fmul :: "'f \<Rightarrow> 'f \<Rightarrow> 'f"
  fdiv :: "'f \<Rightarrow> 'f \<Rightarrow> 'f"
  fless :: "'f \<Rightarrow> 'f \<Rightarrow> bool"
  fgreater :: "'f \<Rightarrow> 'f \<Rightarrow> bool"



record 'f imageDownloader =
  targetAspect :: 'f
  aspectTolerance :: 'f
  imageDownloader_width :: int
  imageDownloader_height :: int




section \<open>The pattern detector (page\_handlers.go)\<close>








section \<open>Concrete inputs\<close>

text \<open>
  A library for the concrete evaluations below. Its \<open>ToLower\<close> is that of Go on the
  ASCII letters and leaves the other bytes as they are; its parser rejects every string,
  as Go's does the empty string, the only one the evaluations apply it to; its
  formatter is applied by none of them; its MIME table has an entry for JPEG.
\<close>

definition demoLib :: golib where
  "demoLib =
     \<lparr>Now = 1700000000000000000,
      ToLower =
        map (\<lambda>c. if (65::nat) \<le> of_char c \<and> of_char c \<le> (90::nat)
                 then char_of (of_char c + (32::nat)) else c),
      FormatRFC3339 = (\<lambda>t. []),
      ParseRFC3339 = (\<lambda>s. None),
      ExtensionsByType =
        (\<lambda>m. if m = ''image/jpeg'' then Some [''.jpe'', ''.jpeg'', ''.jpg''] else None)\<rparr>"

text \<open>
  A feed entry with a \<open>media:content\<close> element and an \<open>enclosure\<close> element of an image
  type that has no \<open>url\<close> attribute.
\<close>

definition enclosureItem :: Item where
  "enclosureItem =
     \<lparr>Item_Title = ''Example Headline Today'', Item_Description = [],
      Item_Link = ''http://x/1'', PublishedParsed = Some 1699990000000000000,
      UpdatedParsed = None,
      Enclosures = [\<lparr>Enclosure_URL = [], Enclosure_Type = ''image/jpeg''\<rparr>],
      Extensions =
        [''media'' \<mapsto> [''content'' \<mapsto> [\<lparr>Attrs = [''url'' \<mapsto> ''http://x/a.jpg'']\<rparr>]]]\<rparr>"

section \<open>The specification of the pattern detector\<close>





text \<open>A feed of two entries that have a title and a link and no image of any kind.\<close>

definition plainItem :: "string \<Rightarrow> string \<Rightarrow> Item" where
  "plainItem t l =
     \<lparr>Item_Title = t, Item_Description = [], Item_Link = l, PublishedParsed = None,
      UpdatedParsed = None, Enclosures = [], Extensions = Map.empty\<rparr>"


section \<open>The specification of the age limit\<close>





section \<open>A concrete world\<close>

text \<open>
  A configuration, two sources of the group \<open>tech\<close>, \<open>es\<close>, and collaborators: the feed
  of the first source has five candidates (the second has the cleaned title of the
  first, the third has its link, the database rejects the row of the fourth, the fifth
  repeats the link and the title of the fourth with another image); the feed of the
  second source cannot be fetched; the purge fails.
\<close>

definition demoCfg :: Config where
  "demoCfg =
     \<lparr>NewsCount = Some [''default'' \<mapsto> VInt 10],
      MaxPerSource = None,
      MaxDays =
        Some [''es'' \<mapsto> VMap [''tech'' \<mapsto> VInt 3, ''default'' \<mapsto> VInt 4],
              ''default'' \<mapsto> VInt 6],
      Filters =
        \<lparr>MinTitle = 10, MaxTitle = 200, Filters_MaxDays = 5,
         MaxDaysForNewsWithFewSources = 7\<rparr>\<rparr>"

definition demoSource :: "nat \<Rightarrow> string \<Rightarrow> string \<Rightarrow> NewsSource" where
  "demoSource n name url =
     \<lparr>NewsSource_ID = n, NewsID = 1,
      News = \<lparr>Category_ID = 1, Category_Code = ''tech'', Category_Name = ''Tecnologia''\<rparr>,
      SourceName = name, RSSURL = url, Filter = Some ''patron1'', TitleField = None,
      ImageField = None, LinkField = None, CampoFecha = None, LangID = 1,
      Lang = \<lparr>Country_ID = 1, Country_Code = ''es'', Country_Name = ''Espana''\<rparr>,
      IsActive = True, UserAdded = False, FallbackImageID = None\<rparr>"

definition candidate :: "string \<Rightarrow> string \<Rightarrow> string \<Rightarrow> NewsItem" where
  "candidate t l i =
     \<lparr>ID = 0, SourceID = 0, Source = zeroNewsSource, Title = t, Link = l, Image = i,
      PubDate = 1699996400000000000, LangCode = [], CategoryCode = [],
      CreatedAt = zeroTime\<rparr>"

definition demoCandidates :: "NewsItem list" where
  "demoCandidates =
     [candidate ''Example Headline Today'' ''http://x/1'' ''http://x/a.jpg'',
      candidate ''Example  Headline <b>Today</b>'' ''http://x/2'' ''http://x/a.jpg'',
      candidate ''Another Headline Today'' ''http://x/1'' ''http://x/a.jpg'',
      candidate ''Third Headline Today'' ''http://x/3'' ''http://x/b.jpg'',
      candidate ''Third Headline Today'' ''http://x/3'' ''http://x/a.jpg'']"

definition demoDeps :: Deps where
  "demoDeps =
     \<lparr>rssFetcher_Fetch =
        (\<lambda>url filt t i l d.
           if url = ''http://x/feed'' then Inr (Inr demoCandidates)
           else Inr (Inl (Wrap ''error al obtener feed RSS: %w'' (New ''no such host'')))),
      imageDownloader_ValidateImage = (\<lambda>url. Inr True),
      GetByCategoryAndLang = (\<lambda>cat lang. Inr None),
      ListActive =
        Inr [demoSource 1 ''Feed One'' ''http://x/feed'',
             demoSource 2 ''Feed Two'' ''http://y/feed''],
      FindByID =
        (\<lambda>n. if n = 1 then Inr (Some (demoSource 1 ''Feed One'' ''http://x/feed''))
              else Inr None),
      gormCreate =
        (\<lambda>rows item. if Image item = ''http://x/b.jpg'' then Inl (New ''connection lost'')
                      else Inr (Suc (length rows))),
      gormDelete = (\<lambda>rows. Some (New ''connection lost'')),
      fallbackMissing = (\<lambda>imagen. False),
      rangeOrder = (\<lambda>groups. groups)\<rparr>"

section \<open>The specification of the admission checks\<close>

text \<open>
  The seven checks as the specification lists them, each as the truth value of
  ``the candidate passes'', for a candidate met in the state \<open>s\<close> of its group:
  black list on the cleaned title, length of the cleaned title, link not seen,
  cleaned title not seen, age, presence of an image (with the fallback image for a
  source whose pattern has no image), qualification of the image.
\<close>

definition spec_resolvedImage :: "Deps \<Rightarrow> string \<Rightarrow> string \<Rightarrow> NewsItem \<Rightarrow> string" where
  "spec_resolvedImage D cat lang item =
     (if Image item \<noteq> [] then Image item else getFallbackImage D cat lang)"

definition spec_imageQualifies :: "Deps \<Rightarrow> string \<Rightarrow> bool" where
  "spec_imageQualifies D imagen =
     (if Contains imagen ''/images/fallback/'' then \<not> fallbackMissing D imagen
      else imageDownloader_ValidateImage D imagen = Inr True)"

definition spec_checks ::
  "golib \<Rightarrow> Deps \<Rightarrow> Config \<Rightarrow> string \<Rightarrow> string \<Rightarrow> int \<Rightarrow> NewsSource \<Rightarrow> gstate \<Rightarrow> NewsItem
     \<Rightarrow> bool list"
where
  "spec_checks L D cfg cat lang maxDays src s item =
     [\<not> isBlacklisted L (cleanText (Title item)),
      MinTitle (Filters cfg) \<le> int (length (cleanText (Title item)))
        \<and> int (length (cleanText (Title item))) \<le> MaxTitle (Filters cfg),
      Link item \<notin> linksVistos s,
      cleanText (Title item) \<notin> titulosVistos s,
      \<not> tooOld L maxDays (PubDate item),
      Image item \<noteq> []
        \<or> (Contains (getString (Filter src)) ''no_image'' \<and> getFallbackImage D cat lang \<noteq> []),
      spec_imageQualifies D (spec_resolvedImage D cat lang item)]"

text \<open>The number (from 1) of the first check of a list that fails.\<close>

fun firstFailing :: "bool list \<Rightarrow> nat option" where
  "firstFailing [] = None"
| "firstFailing (passes # rest) =
     (if passes then map_option Suc (firstFailing rest) else Some 1)"

text \<open>The check that a reason of the loop body belongs to.\<close>

fun checkOf :: "reason \<Rightarrow> nat" where
  "checkOf Blacklisted = 1"
| "checkOf BadLength = 2"
| "checkOf DupLink = 3"
| "checkOf DupTitle = 4"
| "checkOf TooOld = 5"
| "checkOf NoFallback = 6"
| "checkOf NoImage = 6"
| "checkOf (ImageError err) = 7"
| "checkOf ImageInvalid = 7"
| "checkOf FallbackFileMissing = 7"

text \<open>The news item that the loop body hands to the store for a candidate.\<close>

definition spec_newsItem :: "Deps \<Rightarrow> string \<Rightarrow> string \<Rightarrow> NewsSource \<Rightarrow> NewsItem \<Rightarrow> NewsItem" where
  "spec_newsItem D cat lang src item =
     \<lparr>ID = 0, SourceID = NewsSource_ID src, Source = src, Title = cleanText (Title item),
      Link = Link item, Image = spec_resolvedImage D cat lang item, PubDate = PubDate item,
      LangCode = lang, CategoryCode = cat, CreatedAt = zeroTime\<rparr>"

text \<open>The reason the loop body gives when check \<open>k\<close> is the first that fails.\<close>

definition reasonFor :: "Deps \<Rightarrow> string \<Rightarrow> string \<Rightarrow> NewsSource \<Rightarrow> NewsItem \<Rightarrow> nat \<Rightarrow> reason" where
  "reasonFor D cat lang src item k =
     (if k = 1 then Blacklisted
      else if k = 2 then BadLength
      else if k = 3 then DupLink
      else if k = 4 then DupTitle
      else if k = 5 then TooOld
      else if k = 6 then
        (if Contains (getString (Filter src)) ''no_image'' then NoFallback else NoImage)
      else
        (case qualifyImage D (spec_resolvedImage D cat lang item) of
           Some r \<Rightarrow> r
         | None \<Rightarrow> ImageInvalid))"

section \<open>The states of a group\<close>

text \<open>
  The states that the loop body can reach from the initial state of a group, whatever
  the sources and the candidates it is run on.
\<close>

inductive groupReach ::
  "golib \<Rightarrow> Deps \<Rightarrow> Config \<Rightarrow> string \<Rightarrow> string \<Rightarrow> int \<Rightarrow> NewsItem list \<Rightarrow> gstate \<Rightarrow> bool"
  for L D cfg cat lang maxDays st
where
  start: "groupReach L D cfg cat lang maxDays st (initGroup st)"
| step:
    "groupReach L D cfg cat lang maxDays st s \<Longrightarrow>
     groupReach L D cfg cat lang maxDays st
       (snd (processItem L D cfg cat lang maxDays src s item))"

text \<open>Every admitted item of the group has its link and its title in the sets of the seen ones.\<close>

definition seenCover :: "gstate \<Rightarrow> bool" where
  "seenCover s =
     (Link ` set (noticias s) \<subseteq> linksVistos s \<and> Title ` set (noticias s) \<subseteq> titulosVistos s)"

definition feedOne :: NewsSource where
  "feedOne = demoSource 1 ''Feed One'' ''http://x/feed''"

definition feedTwo :: NewsSource where
  "feedTwo = demoSource 2 ''Feed Two'' ''http://y/feed''"

text \<open>The title of the scenario of the specification: \<open>Hor\<close>, the bytes C3 B3, \<open>scopo semanal\<close>.\<close>

definition horoscopo :: NewsItem where
  "horoscopo =
     candidate (''Hor'' @ [CHR 0xC3, CHR 0xB3] @ ''scopo semanal'') ''http://x/9'' ''http://x/a.jpg''"

section \<open>The specification of the image qualifier\<close>


definition spec_aspectWithin :: "'f float64ops \<Rightarrow> 'f imageDownloader \<Rightarrow> int \<Rightarrow> int \<Rightarrow> bool" where
  "spec_aspectWithin F d w h =
     (\<not> fless F (fdiv F (ofInt F w) (ofInt F h))
          (fsub F (targetAspect d) (fmul F (targetAspect d) (aspectTolerance d)))
      \<and> \<not> fgreater F (fdiv F (ofInt F w) (ofInt F h))
          (fadd F (targetAspect d) (fmul F (targetAspect d) (aspectTolerance d))))"

text \<open>
  Exact arithmetic on the rational numbers, a downloader whose target aspect and
  tolerance are binary fractions (7/4 and 1/4), and a network with one image of 800 by
  450 pixels, one of 320 by 180 and no other URL.
\<close>

definition exactOps :: "rat float64ops" where
  "exactOps =
     \<lparr>ofInt = of_int, fadd = (+), fsub = (-), fmul = (*), fdiv = (/), fless = (<),
      fgreater = (>)\<rparr>"



section \<open>A feed that makes the fetcher panic\<close>

text \<open>
  The world of the fetcher of this repository, \<open>Fetch\<close>, over two feeds: the entry of
  the first has the description \<open><p><img src=></p>\<close>; the entry of the second has a
  \<open>media:content\<close> image. \<open>feedThree\<close> reads the first feed with \<open>patron3\<close>, which
  takes the image from the description; \<open>feedOne\<close> reads the second with \<open>patron1\<close>.
\<close>

definition brokenFeed :: "string \<Rightarrow> error + Item list" where
  "brokenFeed url =
     (if url = ''http://z/feed''
      then Inr [(plainItem ''Broken Image Headline'' ''http://z/1'')
                  \<lparr>Item_Description := ''<p><img src=></p>''\<rparr>]
      else if url = ''http://x/feed''
      then Inr [(plainItem ''Example Headline Today'' ''http://x/1'')
                  \<lparr>Extensions :=
                     [''media'' \<mapsto> [''content'' \<mapsto> [\<lparr>Attrs = [''url'' \<mapsto> ''http://x/a.jpg'']\<rparr>]]]\<rparr>]
      else Inl (New ''no such host''))"

definition feedThree :: NewsSource where
  "feedThree = (demoSource 3 ''Feed Three'' ''http://z/feed'')\<lparr>Filter := Some ''patron3''\<rparr>"

definition panicDeps :: "NewsSource list \<Rightarrow> Deps" where
  "panicDeps sources =
     demoDeps\<lparr>rssFetcher_Fetch := Fetch demoLib brokenFeed, ListActive := Inr sources\<rparr>"

section \<open>The field extractor\<close>

lemma TrimSpace_field_names:
  "TrimSpace ''enclosure'' = ''enclosure''"
  "TrimSpace ''media:content'' = ''media:content''"
  "TrimSpace ''guid'' = ''guid''"
  "TrimSpace [] = []"
  by code_simp+

text \<open>
  C3. The claim: the extractor tries each alternative of a \<open>|\<close>-separated field
  specification from the left and returns the first non-empty result. The code does not
  for the alternative \<open>enclosure\<close>: when the first enclosure has an image type, its URL
  is returned without the test for the empty string that the other alternatives make.
  For the entry \<open>enclosureItem\<close> and the specification of \<open>patron2\<close> the extractor
  returns the empty string, although the second alternative yields a URL.
\<close>

theorem extractFieldFromItem_enclosure_empty_url:
  "extractFieldFromItem L enclosureItem ''enclosure|media:content'' = Inr []
   \<and> extractFieldFromItem L enclosureItem ''media:content'' = Inr ''http://x/a.jpg''"
  by (simp add: extractFieldFromItem_def TrimSpace_field_names extractCase_def
      enclosureItem_def HasPrefix_def getMediaContent_def)

text \<open>
  C4. The claim: the scan for \<open><img src>\<close> returns a string for every description and
  the empty string for a malformed tag. The code panics when \<open>src=\<close> are the last bytes
  before the \<open>>\<close> of the tag: the index expression \<open>imgTag[srcIdx+4]\<close> is out of range.
\<close>

theorem extractImgFromDescription_panics:
  "extractImgFromDescription ''<img src=>'' = Inl IndexOutOfRange"
  by (simp add: extractImgFromDescription_def HasPrefix_def)

text \<open>
  The malformed tags that the claim names do give the empty string: a tag without
  \<open>src=\<close>, and a tag whose quote after \<open>src=\<close> is not closed.
\<close>

lemma extractImgFromDescription_malformed:
  "extractImgFromDescription ''<img alt=logo>'' = Inr []"
  "extractImgFromDescription (''<img src='' @ [CHR 0x22] @ ''http://x/a.jpg>'') = Inr []"
  by (simp_all add: extractImgFromDescription_def HasPrefix_def IndexRuneOfByte_def)

section \<open>The date of an entry\<close>

text \<open>
  With the date field of the pattern, a date string that does not parse falls back to
  the publish time of the entry, then to its update time, then to the clock.
\<close>

lemma resolvePubDate_pattern_field:
  assumes "extractFieldFromItem L item (Pattern_DateField (patternOf filt)) = Inr dateStr"
    and "ParseRFC3339 L dateStr = None"
  shows "resolvePubDate L item filt [] =
           Inr (case PublishedParsed item of
                  Some t \<Rightarrow> t
                | None \<Rightarrow> (case UpdatedParsed item of Some t \<Rightarrow> t | None \<Rightarrow> Now L))"
  using assms by (simp add: resolvePubDate_def split: option.splits)

text \<open>
  C5. The claim: in the explicit-field case too, a date string that does not parse falls
  back to the publish time of the entry, then to its update time, then to the clock.
  The code takes the clock at once in that case, whatever the times of the entry.
\<close>

theorem resolvePubDate_explicit_field:
  assumes "dateField \<noteq> []"
    and "extractFieldFromItem L item dateField = Inr dateStr"
    and "ParseRFC3339 L dateStr = None"
  shows "resolvePubDate L item filt dateField = Inr (Now L)"
  using assms by (simp add: resolvePubDate_def)

theorem resolvePubDate_explicit_field_witness:
  "resolvePubDate demoLib enclosureItem ''patron1'' ''guid'' = Inr (Now demoLib)
   \<and> PublishedParsed enclosureItem = Some 1699990000000000000
   \<and> Now demoLib = 1700000000000000000"
proof -
  have f: "extractFieldFromItem demoLib enclosureItem ''guid'' = Inr []"
    by (simp add: extractFieldFromItem_def TrimSpace_field_names extractCase_def)
  have p: "ParseRFC3339 demoLib [] = None"
    by (simp add: demoLib_def)
  have "resolvePubDate demoLib enclosureItem ''patron1'' ''guid'' = Inr (Now demoLib)"
    by (rule resolvePubDate_explicit_field [OF _ f p]) simp
  then show ?thesis
    by (simp add: enclosureItem_def demoLib_def)
qed

section \<open>The pattern detector\<close>












section \<open>The age limit\<close>





section \<open>The admission of a candidate\<close>

lemma Create_Inr:
  assumes "Create L D st item = Inr (row, st')"
  shows "st' = st @ [row]" and "Link row = Link item" and "Title row = Title item"
  using assms by (auto simp: Create_def Let_def split: if_splits sum.splits)

lemma resolveImage_Inl:
  assumes "resolveImage D cat lang src (Image item) = Inl r"
  shows "checkOf r = 6"
    and "\<not> (Image item \<noteq> []
            \<or> (Contains (getString (Filter src)) ''no_image'' \<and> getFallbackImage D cat lang \<noteq> []))"
  using assms by (auto simp: resolveImage_def Let_def split: if_splits)

lemma resolveImage_Inr:
  assumes "resolveImage D cat lang src (Image item) = Inr imagen"
  shows "imagen = spec_resolvedImage D cat lang item"
    and "Image item \<noteq> []
           \<or> (Contains (getString (Filter src)) ''no_image'' \<and> getFallbackImage D cat lang \<noteq> [])"
  using assms by (auto simp: resolveImage_def spec_resolvedImage_def Let_def split: if_splits)

lemma qualifyImage_Some:
  assumes "qualifyImage D imagen = Some r"
  shows "checkOf r = 7" and "\<not> spec_imageQualifies D imagen"
  using assms
  by (auto simp: qualifyImage_def spec_imageQualifies_def split: if_splits sum.splits)

lemma qualifyImage_None:
  assumes "qualifyImage D imagen = None"
  shows "spec_imageQualifies D imagen"
  using assms
  by (auto simp: qualifyImage_def spec_imageQualifies_def split: if_splits sum.splits)

text \<open>The loop body, by the first check that fails.\<close>

lemma processItem_by_checks:
  "processItem L D cfg cat lang maxDays src s item =
     (case firstFailing (spec_checks L D cfg cat lang maxDays src s item) of
        Some k \<Rightarrow> (Discarded (reasonFor D cat lang src item k), discard s)
      | None \<Rightarrow>
          (case Create L D (store s) (spec_newsItem D cat lang src item) of
             Inl err \<Rightarrow> (StoreFailed err, s)
           | Inr (row, store') \<Rightarrow>
               (Admitted row,
                s\<lparr>noticias := noticias s @ [row],
                  linksVistos := insert (Link item) (linksVistos s),
                  titulosVistos := insert (cleanText (Title item)) (titulosVistos s),
                  sourceCounts := (sourceCounts s)
                    (SourceName src := sourceCounts s (SourceName src) + 1),
                  store := store'\<rparr>)))"
proof (cases "resolveImage D cat lang src (Image item)")
  case (Inl r)
  from resolveImage_Inl [OF Inl] Inl show ?thesis
    by (auto simp: processItem_def spec_checks_def reasonFor_def Let_def resolveImage_def
        split: if_splits)
next
  case (Inr imagen)
  note img = resolveImage_Inr [OF Inr]
  show ?thesis
  proof (cases "qualifyImage D imagen")
    case None
    from qualifyImage_None [OF None] img Inr None show ?thesis
      by (auto simp: processItem_def spec_checks_def spec_newsItem_def reasonFor_def Let_def
          split: sum.splits)
  next
    case (Some r)
    from qualifyImage_Some [OF Some] img Inr Some show ?thesis
      by (auto simp: processItem_def spec_checks_def reasonFor_def Let_def)
  qed
qed

lemma reasonFor_check:
  assumes "firstFailing (spec_checks L D cfg cat lang maxDays src s item) = Some k"
  shows "checkOf (reasonFor D cat lang src item k) = k"
proof -
  have q: "\<not> spec_imageQualifies D imagen \<Longrightarrow>
             checkOf (case qualifyImage D imagen of Some r \<Rightarrow> r | None \<Rightarrow> ImageInvalid) = 7"
    for imagen
    using qualifyImage_None [of D imagen] qualifyImage_Some(1) [of D imagen]
    by (cases "qualifyImage D imagen") auto
  show ?thesis
    using assms q [of "spec_resolvedImage D cat lang item"]
    by (auto simp: spec_checks_def reasonFor_def split: if_splits)
qed

lemma processItem_StoreFailed:
  assumes "fst (processItem L D cfg cat lang maxDays src s item) = StoreFailed err"
  shows "snd (processItem L D cfg cat lang maxDays src s item) = s"
    and "firstFailing (spec_checks L D cfg cat lang maxDays src s item) = None"
  using assms unfolding processItem_by_checks
  by (auto split: option.splits sum.splits)

text \<open>
  C1, as the code has it. For a candidate the loop body reaches, the seven checks are
  made in the order of the specification and the first that fails discards the
  candidate, with a reason of that check; the candidate is admitted exactly when all
  seven pass and the store accepts the row; an admitted candidate is persisted and
  counted, and no other candidate is.
\<close>

theorem admission_checks_in_order:
  "(firstFailing (spec_checks L D cfg cat lang maxDays src s item) = Some k
      \<longleftrightarrow> (\<exists>r. fst (processItem L D cfg cat lang maxDays src s item) = Discarded r
                 \<and> checkOf r = k))
   \<and> ((\<exists>row. fst (processItem L D cfg cat lang maxDays src s item) = Admitted row)
      \<longleftrightarrow> firstFailing (spec_checks L D cfg cat lang maxDays src s item) = None
          \<and> (\<exists>row st'. Create L D (store s) (spec_newsItem D cat lang src item)
                           = Inr (row, st')))
   \<and> (case fst (processItem L D cfg cat lang maxDays src s item) of
        Admitted row \<Rightarrow>
          store (snd (processItem L D cfg cat lang maxDays src s item)) = store s @ [row]
          \<and> noticias (snd (processItem L D cfg cat lang maxDays src s item))
              = noticias s @ [row]
          \<and> sourceCounts (snd (processItem L D cfg cat lang maxDays src s item))
                (SourceName src)
              = sourceCounts s (SourceName src) + 1
      | _ \<Rightarrow>
          store (snd (processItem L D cfg cat lang maxDays src s item)) = store s
          \<and> noticias (snd (processItem L D cfg cat lang maxDays src s item)) = noticias s
          \<and> sourceCounts (snd (processItem L D cfg cat lang maxDays src s item))
              = sourceCounts s)"
proof (cases "firstFailing (spec_checks L D cfg cat lang maxDays src s item)")
  case None
  show ?thesis
    unfolding processItem_by_checks None
    by (auto split: sum.splits dest: Create_Inr(1))
next
  case (Some k')
  from reasonFor_check [OF Some] show ?thesis
    unfolding processItem_by_checks Some
    by (auto simp: discard_def)
qed

theorem admission_checks_in_order_witness:
  "firstFailing (spec_checks demoLib demoDeps demoCfg ''tech'' ''es'' 7 feedOne (initGroup [])
      horoscopo) = Some 1
   \<and> (\<exists>r. fst (processItem demoLib demoDeps demoCfg ''tech'' ''es'' 7 feedOne (initGroup [])
               horoscopo) = Discarded r \<and> checkOf r = 1)
   \<and> firstFailing (spec_checks demoLib demoDeps demoCfg ''tech'' ''es'' 7 feedOne (initGroup [])
        (candidate ''Example Headline Today'' ''http://x/1'' ''http://x/a.jpg'')) = None
   \<and> (\<exists>row. fst (processItem demoLib demoDeps demoCfg ''tech'' ''es'' 7 feedOne (initGroup [])
               (candidate ''Example Headline Today'' ''http://x/1'' ''http://x/a.jpg''))
             = Admitted row)"
proof -
  let ?c = "candidate ''Example Headline Today'' ''http://x/1'' ''http://x/a.jpg''"
  have h: "firstFailing (spec_checks demoLib demoDeps demoCfg ''tech'' ''es'' 7 feedOne
             (initGroup []) horoscopo) = Some 1"
    by code_simp
  have a: "case fst (processItem demoLib demoDeps demoCfg ''tech'' ''es'' 7 feedOne
             (initGroup []) ?c) of Admitted row \<Rightarrow> True | _ \<Rightarrow> False"
    by code_simp
  then have e: "\<exists>row. fst (processItem demoLib demoDeps demoCfg ''tech'' ''es'' 7 feedOne
             (initGroup []) ?c) = Admitted row"
    by (cases "fst (processItem demoLib demoDeps demoCfg ''tech'' ''es'' 7 feedOne
             (initGroup []) ?c)") auto
  from h e
    admission_checks_in_order
      [of demoLib demoDeps demoCfg "''tech''" "''es''" 7 feedOne "initGroup []" horoscopo 1]
    admission_checks_in_order
      [of demoLib demoDeps demoCfg "''tech''" "''es''" 7 feedOne "initGroup []" ?c 1]
  show ?thesis
    by blast
qed

text \<open>
  C1, as the claim states it: a candidate that passes all seven checks is persisted and
  counted. The fourth candidate of the concrete world passes the seven checks and the
  database rejects its row: nothing is persisted and nothing is counted.
\<close>

theorem admitted_iff_all_checks_counterexample:
  "firstFailing (spec_checks demoLib demoDeps demoCfg ''tech'' ''es'' 7 feedOne (initGroup [])
      (candidate ''Third Headline Today'' ''http://x/3'' ''http://x/b.jpg'')) = None
   \<and> fst (processItem demoLib demoDeps demoCfg ''tech'' ''es'' 7 feedOne (initGroup [])
        (candidate ''Third Headline Today'' ''http://x/3'' ''http://x/b.jpg''))
     = StoreFailed (New ''connection lost'')
   \<and> store (snd (processItem demoLib demoDeps demoCfg ''tech'' ''es'' 7 feedOne (initGroup [])
        (candidate ''Third Headline Today'' ''http://x/3'' ''http://x/b.jpg''))) = []
   \<and> noticias (snd (processItem demoLib demoDeps demoCfg ''tech'' ''es'' 7 feedOne (initGroup [])
        (candidate ''Third Headline Today'' ''http://x/3'' ''http://x/b.jpg''))) = []"
  by code_simp

section \<open>The image qualifier\<close>


text \<open>In exact arithmetic the bounds are those of the specification.\<close>

lemma spec_aspectWithin_exact:
  "spec_aspectWithin exactOps d w h \<longleftrightarrow>
     targetAspect d * (1 - aspectTolerance d) \<le> of_int w / of_int h
     \<and> of_int w / of_int h \<le> targetAspect d * (1 + aspectTolerance d)"
  by (auto simp: spec_aspectWithin_def exactOps_def algebra_simps)



section \<open>Storage errors\<close>

text \<open>
  C10. When the store rejects the row of a candidate that passed the checks, the state
  of the group is as before the candidate: nothing is added to the seen links, the seen
  titles, the admitted items or the stored rows, and no counter moves. The link and the
  cleaned title of the candidate are then still unseen, so a later candidate with the
  same link or title is not taken for a duplicate.
\<close>

theorem storage_failure_leaves_state:
  assumes "fst (processItem L D cfg cat lang maxDays src s item) = StoreFailed err"
  shows "snd (processItem L D cfg cat lang maxDays src s item) = s
         \<and> Link item \<notin> linksVistos (snd (processItem L D cfg cat lang maxDays src s item))
         \<and> cleanText (Title item)
             \<notin> titulosVistos (snd (processItem L D cfg cat lang maxDays src s item))"
proof -
  from processItem_StoreFailed [OF assms]
  have same: "snd (processItem L D cfg cat lang maxDays src s item) = s"
    and pass: "firstFailing (spec_checks L D cfg cat lang maxDays src s item) = None"
    by simp_all
  from pass have "Link item \<notin> linksVistos s \<and> cleanText (Title item) \<notin> titulosVistos s"
    by (simp add: spec_checks_def split: if_splits)
  with same show ?thesis
    by simp
qed

theorem storage_failure_leaves_state_witness:
  "fst (processItem demoLib demoDeps demoCfg ''tech'' ''es'' 7 feedOne (initGroup [])
          (candidate ''Third Headline Today'' ''http://x/3'' ''http://x/b.jpg''))
     = StoreFailed (New ''connection lost'')
   \<and> snd (processItem demoLib demoDeps demoCfg ''tech'' ''es'' 7 feedOne (initGroup [])
          (candidate ''Third Headline Today'' ''http://x/3'' ''http://x/b.jpg''))
     = initGroup []
   \<and> map Link (noticias (itemsLoop demoLib demoDeps demoCfg ''tech'' ''es'' 10 7 7 feedOne
          [candidate ''Third Headline Today'' ''http://x/3'' ''http://x/b.jpg'',
           candidate ''Third Headline Today'' ''http://x/3'' ''http://x/a.jpg'']
          (initGroup [])))
     = [''http://x/3'']"
proof -
  have a: "fst (processItem demoLib demoDeps demoCfg ''tech'' ''es'' 7 feedOne (initGroup [])
             (candidate ''Third Headline Today'' ''http://x/3'' ''http://x/b.jpg''))
           = StoreFailed (New ''connection lost'')"
    by code_simp
  have b: "map Link (noticias (itemsLoop demoLib demoDeps demoCfg ''tech'' ''es'' 10 7 7 feedOne
             [candidate ''Third Headline Today'' ''http://x/3'' ''http://x/b.jpg'',
              candidate ''Third Headline Today'' ''http://x/3'' ''http://x/a.jpg'']
             (initGroup [])))
           = [''http://x/3'']"
    by code_simp
  from a b storage_failure_leaves_state [OF a] show ?thesis
    by blast
qed

section \<open>No duplicates among the admitted items of a group\<close>

lemma firstFailing_None: "firstFailing bs = None \<longleftrightarrow> (\<forall>b \<in> set bs. b)"
  by (induction bs) auto

lemma processItem_keeps_distinct:
  assumes "distinct (map Link (noticias s))" and "distinct (map Title (noticias s))"
    and "seenCover s"
  shows "distinct (map Link (noticias (snd (processItem L D cfg cat lang maxDays src s item))))
         \<and> distinct (map Title (noticias (snd (processItem L D cfg cat lang maxDays src s item))))
         \<and> seenCover (snd (processItem L D cfg cat lang maxDays src s item))"
proof (cases "firstFailing (spec_checks L D cfg cat lang maxDays src s item)")
  case (Some k)
  with assms show ?thesis
    unfolding processItem_by_checks
    by (simp add: discard_def seenCover_def)
next
  case None
  then have new: "Link item \<notin> linksVistos s" "cleanText (Title item) \<notin> titulosVistos s"
    by (simp_all add: spec_checks_def split: if_splits)
  show ?thesis
  proof (cases "Create L D (store s) (spec_newsItem D cat lang src item)")
    case (Inl err)
    with None assms show ?thesis
      unfolding processItem_by_checks by simp
  next
    case (Inr r)
    obtain row st' where r: "r = (row, st')"
      by (cases r)
    from Create_Inr(2,3) [OF Inr [unfolded r]]
    have row: "Link row = Link item" "Title row = cleanText (Title item)"
      by (simp_all add: spec_newsItem_def)
    from assms new row show ?thesis
      unfolding processItem_by_checks None Inr r
      by (auto simp: seenCover_def)
  qed
qed

lemma groupReach_distinct:
  assumes "groupReach L D cfg cat lang maxDays st s"
  shows "distinct (map Link (noticias s)) \<and> distinct (map Title (noticias s)) \<and> seenCover s"
  using assms
proof (induction rule: groupReach.induct)
  case start
  show ?case
    by (simp add: initGroup_def seenCover_def)
next
  case (step s src item)
  then show ?case
    using processItem_keeps_distinct by blast
qed

lemma itemsLoop_reach:
  assumes "groupReach L D cfg cat lang maxDays st s"
  shows "groupReach L D cfg cat lang maxDays st
           (itemsLoop L D cfg cat lang tope maxDays maxPerSource src items s)"
  using assms
proof (induction items arbitrary: s)
  case Nil
  then show ?case by simp
next
  case (Cons item rest)
  from Cons.prems have "groupReach L D cfg cat lang maxDays st
      (snd (processItem L D cfg cat lang maxDays src s item))"
    by (rule groupReach.step)
  from Cons.IH [OF this] Cons.prems show ?case
    by simp
qed

lemma sourcesLoop_reach:
  assumes "groupReach L D cfg cat lang maxDays st s"
    and "sourcesLoop L D cfg cat lang tope maxDays srcs s = Some s'"
  shows "groupReach L D cfg cat lang maxDays st s'"
  using assms
proof (induction srcs arbitrary: s)
  case Nil
  then show ?case by simp
next
  case (Cons src rest)
  show ?case
  proof (cases "rssFetcher_Fetch D (RSSURL src) (getString (Filter src))
                  (getString (TitleField src)) (getString (ImageField src))
                  (getString (LinkField src)) (getString (CampoFecha src))")
    case (Inl p)
    with Cons.prems show ?thesis by simp
  next
    case (Inr r)
    show ?thesis
    proof (cases r)
      case (Inl err)
      with Inr Cons show ?thesis by simp
    next
      case (Inr feedItems)
      let ?s1 = "itemsLoop L D cfg cat lang tope maxDays (GetMaxPerSource cfg lang cat) src
                   feedItems s"
      have reach: "groupReach L D cfg cat lang maxDays st ?s1"
        using Cons.prems(1) by (rule itemsLoop_reach)
      from Cons.prems(2) \<open>rssFetcher_Fetch D (RSSURL src) (getString (Filter src))
           (getString (TitleField src)) (getString (ImageField src))
           (getString (LinkField src)) (getString (CampoFecha src)) = Inr r\<close> Inr
      have "s' = ?s1 \<or> sourcesLoop L D cfg cat lang tope maxDays rest ?s1 = Some s'"
        by (simp add: Let_def split: if_splits)
      with reach Cons.IH [OF reach] show ?thesis
        by blast
    qed
  qed
qed

lemma processGroup_reach:
  assumes "processGroup L D cfg key groupSources st = Some s"
  shows "\<exists>cat lang maxDays. groupReach L D cfg cat lang maxDays st s"
proof (cases "SplitN2 key (CHR ''_'')")
  case None
  with assms have "s = initGroup st"
    by (simp add: processGroup_def)
  then show ?thesis
    using groupReach.start by blast
next
  case (Some cl)
  obtain cat lang where cl: "cl = (cat, lang)"
    by (cases cl)
  from assms Some cl
  have "sourcesLoop L D cfg cat lang (getNewsCount cfg lang cat)
          (groupMaxDays cfg lang cat groupSources) groupSources (initGroup st) = Some s"
    by (simp add: processGroup_def)
  from sourcesLoop_reach [OF groupReach.start this] show ?thesis
    by blast
qed

text \<open>
  C2. In every state that the loop body reaches from the initial state of a group, no
  two admitted items have the same link and no two have the same cleaned title (the
  title of an admitted item is the cleaned title of its candidate); so it is in the
  state in which the pass over the group ends.
\<close>

theorem admitted_items_distinct:
  "(groupReach L D cfg cat lang maxDays st s \<longrightarrow>
      distinct (map Link (noticias s)) \<and> distinct (map Title (noticias s)))
   \<and> (processGroup L D cfg key groupSources st = Some s' \<longrightarrow>
      distinct (map Link (noticias s')) \<and> distinct (map Title (noticias s')))"
proof (intro conjI impI)
  assume "groupReach L D cfg cat lang maxDays st s"
  from groupReach_distinct [OF this]
  show "distinct (map Link (noticias s))" and "distinct (map Title (noticias s))"
    by simp_all
next
  assume "processGroup L D cfg key groupSources st = Some s'"
  from processGroup_reach [OF this] obtain cat' lang' maxDays'
    where "groupReach L D cfg cat' lang' maxDays' st s'"
    by blast
  from groupReach_distinct [OF this]
  show "distinct (map Link (noticias s'))" and "distinct (map Title (noticias s'))"
    by simp_all
qed

theorem admitted_items_distinct_witness:
  "groupReach demoLib demoDeps demoCfg ''tech'' ''es'' 7 []
     (itemsLoop demoLib demoDeps demoCfg ''tech'' ''es'' 10 7 7 feedOne demoCandidates
        (initGroup []))
   \<and> map Link (noticias (itemsLoop demoLib demoDeps demoCfg ''tech'' ''es'' 10 7 7 feedOne
        demoCandidates (initGroup []))) = [''http://x/1'', ''http://x/3'']
   \<and> distinct (map Title (noticias (itemsLoop demoLib demoDeps demoCfg ''tech'' ''es'' 10 7 7
        feedOne demoCandidates (initGroup []))))
   \<and> (\<exists>s'. processGroup demoLib demoDeps demoCfg ''tech_es'' [feedOne, feedTwo] [] = Some s'
         \<and> distinct (map Link (noticias s')) \<and> distinct (map Title (noticias s')))"
proof -
  let ?s = "itemsLoop demoLib demoDeps demoCfg ''tech'' ''es'' 10 7 7 feedOne demoCandidates
              (initGroup [])"
  have r: "groupReach demoLib demoDeps demoCfg ''tech'' ''es'' 7 [] ?s"
    by (rule itemsLoop_reach [OF groupReach.start])
  have l: "map Link (noticias ?s) = [''http://x/1'', ''http://x/3'']"
    by code_simp
  have "case processGroup demoLib demoDeps demoCfg ''tech_es'' [feedOne, feedTwo] [] of
          None \<Rightarrow> False | Some s' \<Rightarrow> True"
    by code_simp
  then obtain s' where
    g: "processGroup demoLib demoDeps demoCfg ''tech_es'' [feedOne, feedTwo] [] = Some s'"
    by (cases "processGroup demoLib demoDeps demoCfg ''tech_es'' [feedOne, feedTwo] []") auto
  from r l g
    admitted_items_distinct
      [of demoLib demoDeps demoCfg "''tech''" "''es''" 7 "[]" ?s "''tech_es''"
          "[feedOne, feedTwo]" s']
  show ?thesis
    by blast
qed

section \<open>The errors of a full run\<close>

text \<open>
  What the code does with the errors that are returned to it: \<open>Execute\<close> returns an
  error exactly when \<open>ListActive\<close> fails. A failure of the purge is logged as a warning
  and the run goes on with the sources; a source whose fetch returns an error is skipped
  and the loop goes on with the next source; a candidate whose row the store rejects is
  skipped and the loop goes on with the next candidate. A fetch that panics is not
  among these: the third and the fourth part leave it out.
\<close>

theorem Execute_fails_only_on_ListActive:
  "((\<exists>e st. completion (Execute L D cfg st0) = Returned (Some e) st)
      \<longleftrightarrow> (\<exists>err. ListActive D = Inl err))
   \<and> purgeWarning (Execute L D cfg st0)
       = (case cleanOldNews L D st0 of Inl err \<Rightarrow> Some err | Inr st \<Rightarrow> None)
   \<and> (cleanOldNews L D st0 = Inl perr \<and> ListActive D = Inr sources \<longrightarrow>
        completion (Execute L D cfg st0) =
          (case groupsLoop L D cfg (rangeOrder D (groupSourcesBy sources [])) st0 of
             None \<Rightarrow> Panicked
           | Some st \<Rightarrow> Returned None st))
   \<and> (rssFetcher_Fetch D (RSSURL src) (getString (Filter src)) (getString (TitleField src))
          (getString (ImageField src)) (getString (LinkField src))
          (getString (CampoFecha src)) = Inr (Inl ferr) \<longrightarrow>
        sourcesLoop L D cfg cat lang tope maxDays (src # rest) s
          = sourcesLoop L D cfg cat lang tope maxDays rest s)
   \<and> (int (length (noticias s2)) < tope \<and> sourceCounts s2 (SourceName src2) < maxPerSource
        \<and> fst (processItem L D cfg cat lang maxDays src2 s2 item) = StoreFailed serr \<longrightarrow>
        itemsLoop L D cfg cat lang tope maxDays maxPerSource src2 (item # items) s2
          = itemsLoop L D cfg cat lang tope maxDays maxPerSource src2 items s2)"
proof (intro conjI impI)
  show "(\<exists>e st. completion (Execute L D cfg st0) = Returned (Some e) st)
          \<longleftrightarrow> (\<exists>err. ListActive D = Inl err)"
    by (auto simp: Execute_def Let_def split: sum.splits option.splits prod.splits)
next
  show "purgeWarning (Execute L D cfg st0)
          = (case cleanOldNews L D st0 of Inl err \<Rightarrow> Some err | Inr st \<Rightarrow> None)"
    by (auto simp: Execute_def Let_def split: sum.splits option.splits prod.splits)
next
  assume "cleanOldNews L D st0 = Inl perr \<and> ListActive D = Inr sources"
  then show "completion (Execute L D cfg st0) =
          (case groupsLoop L D cfg (rangeOrder D (groupSourcesBy sources [])) st0 of
             None \<Rightarrow> Panicked
           | Some st \<Rightarrow> Returned None st)"
    by (auto simp: Execute_def Let_def split: option.splits)
next
  assume "rssFetcher_Fetch D (RSSURL src) (getString (Filter src)) (getString (TitleField src))
          (getString (ImageField src)) (getString (LinkField src))
          (getString (CampoFecha src)) = Inr (Inl ferr)"
  then show "sourcesLoop L D cfg cat lang tope maxDays (src # rest) s
          = sourcesLoop L D cfg cat lang tope maxDays rest s"
    by simp
next
  assume a: "int (length (noticias s2)) < tope \<and> sourceCounts s2 (SourceName src2) < maxPerSource
        \<and> fst (processItem L D cfg cat lang maxDays src2 s2 item) = StoreFailed serr"
  then have "snd (processItem L D cfg cat lang maxDays src2 s2 item) = s2"
    using processItem_StoreFailed(1) by blast
  with a show "itemsLoop L D cfg cat lang tope maxDays maxPerSource src2 (item # items) s2
          = itemsLoop L D cfg cat lang tope maxDays maxPerSource src2 items s2"
    by simp
qed

theorem Execute_fails_only_on_ListActive_witness:
  "ListActive demoDeps = Inr [feedOne, feedTwo]
   \<and> \<not> (\<exists>e st. completion (Execute demoLib demoDeps demoCfg []) = Returned (Some e) st)
   \<and> cleanOldNews demoLib demoDeps []
       = Inl (Wrap ''error limpiando noticias de la BD: %w'' (New ''connection lost''))
   \<and> purgeWarning (Execute demoLib demoDeps demoCfg [])
       = Some (Wrap ''error limpiando noticias de la BD: %w'' (New ''connection lost''))
   \<and> completion (Execute demoLib demoDeps demoCfg [])
       = (case groupsLoop demoLib demoDeps demoCfg
                 (rangeOrder demoDeps (groupSourcesBy [feedOne, feedTwo] [])) [] of
            None \<Rightarrow> Panicked
          | Some st \<Rightarrow> Returned None st)
   \<and> rssFetcher_Fetch demoDeps (RSSURL feedTwo) (getString (Filter feedTwo))
         (getString (TitleField feedTwo)) (getString (ImageField feedTwo))
         (getString (LinkField feedTwo)) (getString (CampoFecha feedTwo))
       = Inr (Inl (Wrap ''error al obtener feed RSS: %w'' (New ''no such host'')))
   \<and> sourcesLoop demoLib demoDeps demoCfg ''tech'' ''es'' 10 7 [feedTwo, feedOne] (initGroup [])
       = sourcesLoop demoLib demoDeps demoCfg ''tech'' ''es'' 10 7 [feedOne] (initGroup [])
   \<and> fst (processItem demoLib demoDeps demoCfg ''tech'' ''es'' 7 feedOne (initGroup [])
          (candidate ''Third Headline Today'' ''http://x/3'' ''http://x/b.jpg''))
       = StoreFailed (New ''connection lost'')
   \<and> itemsLoop demoLib demoDeps demoCfg ''tech'' ''es'' 10 7 7 feedOne
         [candidate ''Third Headline Today'' ''http://x/3'' ''http://x/b.jpg'',
          candidate ''Third Headline Today'' ''http://x/3'' ''http://x/a.jpg'']
         (initGroup [])
       = itemsLoop demoLib demoDeps demoCfg ''tech'' ''es'' 10 7 7 feedOne
           [candidate ''Third Headline Today'' ''http://x/3'' ''http://x/a.jpg'']
           (initGroup [])
   \<and> (case completion (Execute demoLib demoDeps demoCfg []) of
         Returned None rows \<Rightarrow> map Link rows = [''http://x/1'', ''http://x/3'']
       | _ \<Rightarrow> False)"
proof -
  let ?c4 = "candidate ''Third Headline Today'' ''http://x/3'' ''http://x/b.jpg''"
  let ?c5 = "candidate ''Third Headline Today'' ''http://x/3'' ''http://x/a.jpg''"
  have list: "ListActive demoDeps = Inr [feedOne, feedTwo]"
    by (simp add: demoDeps_def feedOne_def feedTwo_def)
  have purge: "cleanOldNews demoLib demoDeps []
       = Inl (Wrap ''error limpiando noticias de la BD: %w'' (New ''connection lost''))"
    by code_simp
  have fetch: "rssFetcher_Fetch demoDeps (RSSURL feedTwo) (getString (Filter feedTwo))
         (getString (TitleField feedTwo)) (getString (ImageField feedTwo))
         (getString (LinkField feedTwo)) (getString (CampoFecha feedTwo))
       = Inr (Inl (Wrap ''error al obtener feed RSS: %w'' (New ''no such host'')))"
    by code_simp
  have limits: "int (length (noticias (initGroup []))) < 10"
    "sourceCounts (initGroup []) (SourceName feedOne) < 7"
    by (simp_all add: initGroup_def)
  have fails: "fst (processItem demoLib demoDeps demoCfg ''tech'' ''es'' 7 feedOne
          (initGroup []) ?c4) = StoreFailed (New ''connection lost'')"
    by code_simp
  have rows: "case completion (Execute demoLib demoDeps demoCfg []) of
         Returned None rows \<Rightarrow> map Link rows = [''http://x/1'', ''http://x/3'']
       | _ \<Rightarrow> False"
    by code_simp
  note inst = Execute_fails_only_on_ListActive
    [where L = demoLib and D = demoDeps and cfg = demoCfg and ?st0.0 = "[]"
       and perr = "Wrap ''error limpiando noticias de la BD: %w'' (New ''connection lost'')"
       and sources = "[feedOne, feedTwo]" and src = feedTwo
       and ferr = "Wrap ''error al obtener feed RSS: %w'' (New ''no such host'')"
       and cat = "''tech''" and lang = "''es''" and tope = 10 and maxDays = 7
       and rest = "[feedOne]" and s = "initGroup []" and ?s2.0 = "initGroup []"
       and ?src2.0 = feedOne and maxPerSource = 7 and item = ?c4
       and serr = "New ''connection lost''" and items = "[?c5]"]
  let ?E = "Execute demoLib demoDeps demoCfg []"
  let ?perr = "Wrap ''error limpiando noticias de la BD: %w'' (New ''connection lost'')"
  have noerr: "\<not> (\<exists>err. ListActive demoDeps = Inl err)"
    by (simp add: list)
  have w2: "\<not> (\<exists>e st. completion ?E = Returned (Some e) st)"
    using inst noerr by blast
  have "purgeWarning ?E = (case cleanOldNews demoLib demoDeps [] of
          Inl err \<Rightarrow> Some err | Inr st \<Rightarrow> None)"
    using inst by blast
  then have w4: "purgeWarning ?E = Some ?perr"
    by (simp only: purge sum.case)
  have w5: "completion ?E
       = (case groupsLoop demoLib demoDeps demoCfg
                 (rangeOrder demoDeps (groupSourcesBy [feedOne, feedTwo] [])) [] of
            None \<Rightarrow> Panicked
          | Some st \<Rightarrow> Returned None st)"
    using inst purge list by blast
  have w7: "sourcesLoop demoLib demoDeps demoCfg ''tech'' ''es'' 10 7 [feedTwo, feedOne]
              (initGroup [])
       = sourcesLoop demoLib demoDeps demoCfg ''tech'' ''es'' 10 7 [feedOne] (initGroup [])"
    using inst fetch by blast
  have w9: "itemsLoop demoLib demoDeps demoCfg ''tech'' ''es'' 10 7 7 feedOne [?c4, ?c5]
              (initGroup [])
       = itemsLoop demoLib demoDeps demoCfg ''tech'' ''es'' 10 7 7 feedOne [?c5]
           (initGroup [])"
    using inst limits fails by blast
  from list w2 purge w4 w5 fetch w7 fails w9 rows show ?thesis
    by (intro conjI)
qed

text \<open>
  C9. The claim: every error of the fetch of a source is recovered in the loop, which
  goes on with the next source, and the run returns an error only when \<open>ListActive\<close>
  fails. The code does not recover a fetch that panics: for a source with \<open>patron3\<close>
  whose feed has an entry with the description \<open><p><img src=></p>\<close> the fetcher
  panics (the index out of range of \<open>extractImgFromDescription\<close>), and the run ends
  there without a return, whether the source comes before or after a source whose
  candidate the run alone admits.
\<close>

theorem Execute_panics_on_fetch:
  "rssFetcher_Fetch (panicDeps [feedThree, feedOne]) (RSSURL feedThree)
       (getString (Filter feedThree)) (getString (TitleField feedThree))
       (getString (ImageField feedThree)) (getString (LinkField feedThree))
       (getString (CampoFecha feedThree))
     = Inl IndexOutOfRange
   \<and> completion (Execute demoLib (panicDeps [feedThree, feedOne]) demoCfg []) = Panicked
   \<and> completion (Execute demoLib (panicDeps [feedOne, feedThree]) demoCfg []) = Panicked
   \<and> (case completion (Execute demoLib (panicDeps [feedOne]) demoCfg []) of
         Returned None rows \<Rightarrow> map Link rows = [''http://x/1'']
       | _ \<Rightarrow> False)"
  by code_simp

end
